theory Spec2Isabelle
  imports Complex_Main "HOL-Library.Log_Nat"
begin

section \<open>Data model\<close>

text \<open>
  The rows of the four tables the controllers work on. Keys are natural numbers.
  A column that the controllers read through \<^verbatim>\<open>x || default\<close> is an option: \<open>None\<close>
  stands for a value that is null or was not supplied.
  Time stamps are milliseconds since the epoch.
\<close>

type_synonym ident = nat
type_synonym timestamp = int

record User =
  u_id :: ident
  u_email :: string
  u_firstName :: string
  u_lastName :: string
  u_role :: string

record CaregiverPatient =
  cp_id :: ident
  caregiverId :: ident
  patientId :: ident
  relationship :: string
  permissions :: "string list"
  isVerified :: bool
  cp_isActive :: bool

record Medication =
  m_id :: ident
  m_userId :: ident
  m_name :: string
  dosage :: string
  dosageUnit :: string
  timesPerDay :: "int option"
  totalQuantity :: "int option"
  remainingQuantity :: "int option"
  m_isActive :: bool

record Adherence =
  a_id :: ident
  a_userId :: ident
  a_medicationId :: "ident option"
  a_status :: "string option"
  a_takenAt :: timestamp
  a_scheduledTime :: "timestamp option"

record Notification =
  n_userId :: ident
  n_caregiverId :: ident
  n_type :: string
  n_title :: string
  n_message :: string
  n_isRead :: bool
  n_priority :: string

record Store =
  users :: "User list"
  caregiverPatients :: "CaregiverPatient list"
  medications :: "Medication list"
  adherences :: "Adherence list"
  notifications :: "Notification list"

text \<open>The status codes the handlers answer with when they do not succeed.\<close>

datatype error = BadRequest | AccessDenied | NotFound | Conflict

section \<open>The access check\<close>

text \<open>
  \<^verbatim>\<open>_validateAccess\<close> is written twice, in the medication controller and in the adherence
  controller, with the same three tests in the same order. \<^verbatim>\<open>findOne\<close> is the first row
  of the table that satisfies the \<^verbatim>\<open>where\<close> clause, and \<^verbatim>\<open>!!relation\<close> asks whether
  there is one.
\<close>

definition validateAccess :: "CaregiverPatient list \<Rightarrow> User \<Rightarrow> ident \<Rightarrow> bool" where
  "validateAccess cps requestingUser targetUserId =
     (if u_id requestingUser = targetUserId then True
      else if u_role requestingUser \<in> set [''admin'', ''healthcareprovider''] then True
      else if u_role requestingUser = ''caregiver'' then
        (case find (\<lambda>r. caregiverId r = u_id requestingUser \<and> patientId r = targetUserId
                          \<and> cp_isActive r \<and> isVerified r) cps of
           None \<Rightarrow> False
         | Some relation \<Rightarrow> True)
      else False)"

text \<open>
  The access rule as the specification's testable property words it: self access, a
  privileged role, or an active and verified relationship row, whatever the role.
\<close>

definition authorize_spec :: "CaregiverPatient list \<Rightarrow> User \<Rightarrow> ident \<Rightarrow> bool" where
  "authorize_spec cps R T =
     (u_id R = T \<or> u_role R = ''admin'' \<or> u_role R = ''healthcareprovider''
      \<or> list_ex (\<lambda>r. caregiverId r = u_id R \<and> patientId r = T
                       \<and> cp_isActive r \<and> isVerified r) cps)"

section \<open>Storage primitives\<close>

text \<open>
  A table is the list of its rows. \<^verbatim>\<open>findOne\<close> and \<^verbatim>\<open>findByPk\<close> are \<open>find\<close> with
  the \<^verbatim>\<open>where\<close> clause as predicate. \<^verbatim>\<open>instance.update(values)\<close> rewrites the rows whose
  key is the instance's key. \<^verbatim>\<open>create\<close> appends a row under a key that the storage chooses:
  one more than the largest key of the table.
\<close>

definition updateRows :: "('a \<Rightarrow> bool) \<Rightarrow> ('a \<Rightarrow> 'a) \<Rightarrow> 'a list \<Rightarrow> 'a list" where
  "updateRows P f rows = map (\<lambda>r. if P r then f r else r) rows"

definition freshId :: "ident list \<Rightarrow> ident" where
  "freshId ks = Suc (fold max ks 0)"

text \<open>\<^verbatim>\<open>x || d\<close> on a string and on a number: the empty string and zero are falsy.\<close>

definition strOr :: "string option \<Rightarrow> string \<Rightarrow> string" where
  "strOr x d = (case x of None \<Rightarrow> d | Some v \<Rightarrow> if v = [] then d else v)"

definition intOr :: "int option \<Rightarrow> int \<Rightarrow> int" where
  "intOr x d = (case x of None \<Rightarrow> d | Some v \<Rightarrow> if v = 0 then d else v)"

definition timeOr :: "timestamp option \<Rightarrow> timestamp \<Rightarrow> timestamp" where
  "timeOr x d = (case x of None \<Rightarrow> d | Some v \<Rightarrow> if v = 0 then d else v)"

section \<open>The caregiver controller\<close>

text \<open>
  Each handler takes the authenticated user (\<^verbatim>\<open>req.user\<close>), its parameters and the
  store, and returns the answer (an error, or the payload of the success response)
  with the store afterwards. Logging and the socket event of the invitation do not
  touch the store and are left out.
\<close>

definition inviteCaregiver ::
  "User \<Rightarrow> string \<Rightarrow> string option \<Rightarrow> string list option \<Rightarrow> Store \<Rightarrow> (error + unit) \<times> Store" where
  "inviteCaregiver reqUser email rel perms s =
     (case find (\<lambda>u. u_email u = email) (users s) of
        None \<Rightarrow> (Inl NotFound, s)
      | Some caregiverUser \<Rightarrow>
          if u_id caregiverUser = u_id reqUser then (Inl BadRequest, s)
          else
            (case find (\<lambda>r. caregiverId r = u_id caregiverUser \<and> patientId r = u_id reqUser
                              \<and> cp_isActive r) (caregiverPatients s) of
               Some existing \<Rightarrow> (Inl Conflict, s)
             | None \<Rightarrow>
                 let link = \<lparr>cp_id = freshId (map cp_id (caregiverPatients s)),
                             caregiverId = u_id caregiverUser,
                             patientId = u_id reqUser,
                             relationship = strOr rel ''other'',
                             permissions = (case perms of None \<Rightarrow> [''viewMedications'']
                                            | Some ps \<Rightarrow> ps),
                             isVerified = False,
                             cp_isActive = True\<rparr>;
                     note = \<lparr>n_userId = u_id reqUser,
                             n_caregiverId = u_id caregiverUser,
                             n_type = ''caregiveralert'',
                             n_title = ''New Caregiver Invitation'',
                             n_message = u_firstName reqUser @ '' '' @ u_lastName reqUser
                               @ '' has invited you to be their caregiver.'',
                             n_isRead = False,
                             n_priority = ''high''\<rparr>
                 in (Inr (), s\<lparr>caregiverPatients := caregiverPatients s @ [link],
                               notifications := notifications s @ [note]\<rparr>)))"

definition acceptInvitation :: "User \<Rightarrow> ident \<Rightarrow> Store \<Rightarrow> (error + CaregiverPatient) \<times> Store" where
  "acceptInvitation reqUser k s =
     (case find (\<lambda>r. cp_id r = k \<and> caregiverId r = u_id reqUser
                      \<and> \<not> isVerified r \<and> cp_isActive r) (caregiverPatients s) of
        None \<Rightarrow> (Inl NotFound, s)
      | Some rel \<Rightarrow>
          (Inr (rel\<lparr>isVerified := True\<rparr>),
           s\<lparr>caregiverPatients :=
               updateRows (\<lambda>r. cp_id r = cp_id rel) (\<lambda>r. r\<lparr>isVerified := True\<rparr>)
                 (caregiverPatients s)\<rparr>))"

definition declineInvitation :: "User \<Rightarrow> ident \<Rightarrow> Store \<Rightarrow> (error + unit) \<times> Store" where
  "declineInvitation reqUser k s =
     (case find (\<lambda>r. cp_id r = k \<and> caregiverId r = u_id reqUser
                      \<and> \<not> isVerified r \<and> cp_isActive r) (caregiverPatients s) of
        None \<Rightarrow> (Inl NotFound, s)
      | Some rel \<Rightarrow>
          (Inr (),
           s\<lparr>caregiverPatients :=
               updateRows (\<lambda>r. cp_id r = cp_id rel) (\<lambda>r. r\<lparr>cp_isActive := False\<rparr>)
                 (caregiverPatients s)\<rparr>))"

definition removeCaregiver :: "User \<Rightarrow> ident \<Rightarrow> Store \<Rightarrow> (error + unit) \<times> Store" where
  "removeCaregiver reqUser k s =
     (let byKey = find (\<lambda>r. cp_id r = k) (caregiverPatients s);
          link = (case byKey of
                    Some l \<Rightarrow> Some l
                  | None \<Rightarrow> find (\<lambda>r. caregiverId r = k \<and> patientId r = u_id reqUser)
                              (caregiverPatients s))
      in case link of
           None \<Rightarrow> (Inl NotFound, s)
         | Some l \<Rightarrow>
             (Inr (),
              s\<lparr>caregiverPatients :=
                  updateRows (\<lambda>r. cp_id r = cp_id l) (\<lambda>r. r\<lparr>cp_isActive := False\<rparr>)
                    (caregiverPatients s)\<rparr>))"

text \<open>
  The four handlers above are the only code that writes the relationship table. A
  history of the table is a list of their calls, run in order.
\<close>

datatype relOp =
    Invite User string "string option" "string list option"
  | Accept User ident
  | Decline User ident
  | Remove User ident

fun relStep :: "relOp \<Rightarrow> Store \<Rightarrow> Store" where
  "relStep (Invite u email rel perms) s = snd (inviteCaregiver u email rel perms s)"
| "relStep (Accept u k) s = snd (acceptInvitation u k s)"
| "relStep (Decline u k) s = snd (declineInvitation u k s)"
| "relStep (Remove u k) s = snd (removeCaregiver u k s)"

fun relRun :: "relOp list \<Rightarrow> Store \<Rightarrow> Store" where
  "relRun [] s = s"
| "relRun (op # ops) s = relRun ops (relStep op s)"

section \<open>The medication controller\<close>

text \<open>
  The body of an update request: a field that is \<open>None\<close> is absent from the body and
  keeps the row's value.
\<close>

record MedicationUpdates =
  mu_userId :: "ident option"
  mu_name :: "string option"
  mu_dosage :: "string option"
  mu_dosageUnit :: "string option"
  mu_timesPerDay :: "int option"
  mu_totalQuantity :: "int option"
  mu_remainingQuantity :: "int option"
  mu_isActive :: "bool option"

definition applyMedicationUpdates :: "MedicationUpdates \<Rightarrow> Medication \<Rightarrow> Medication" where
  "applyMedicationUpdates b m =
     m\<lparr>m_userId := (case mu_userId b of None \<Rightarrow> m_userId m | Some v \<Rightarrow> v),
       m_name := (case mu_name b of None \<Rightarrow> m_name m | Some v \<Rightarrow> v),
       dosage := (case mu_dosage b of None \<Rightarrow> dosage m | Some v \<Rightarrow> v),
       dosageUnit := (case mu_dosageUnit b of None \<Rightarrow> dosageUnit m | Some v \<Rightarrow> v),
       timesPerDay := (case mu_timesPerDay b of None \<Rightarrow> timesPerDay m | Some v \<Rightarrow> Some v),
       totalQuantity := (case mu_totalQuantity b of None \<Rightarrow> totalQuantity m | Some v \<Rightarrow> Some v),
       remainingQuantity :=
         (case mu_remainingQuantity b of None \<Rightarrow> remainingQuantity m | Some v \<Rightarrow> Some v),
       m_isActive := (case mu_isActive b of None \<Rightarrow> m_isActive m | Some v \<Rightarrow> v)\<rparr>"

definition updateMedication ::
  "User \<Rightarrow> ident \<Rightarrow> MedicationUpdates \<Rightarrow> Store \<Rightarrow> (error + Medication) \<times> Store" where
  "updateMedication reqUser k body s =
     (case find (\<lambda>m. m_id m = k \<and> m_userId m = u_id reqUser) (medications s) of
        None \<Rightarrow> (Inl NotFound, s)
      | Some medication \<Rightarrow>
          (Inr (applyMedicationUpdates body medication),
           s\<lparr>medications :=
               updateRows (\<lambda>m. m_id m = m_id medication) (applyMedicationUpdates body)
                 (medications s)\<rparr>))"

definition deleteMedication :: "User \<Rightarrow> ident \<Rightarrow> Store \<Rightarrow> (error + unit) \<times> Store" where
  "deleteMedication reqUser k s =
     (case find (\<lambda>m. m_id m = k \<and> m_userId m = u_id reqUser) (medications s) of
        None \<Rightarrow> (Inl NotFound, s)
      | Some medication \<Rightarrow>
          (Inr (),
           s\<lparr>medications :=
               updateRows (\<lambda>m. m_id m = m_id medication) (\<lambda>m. m\<lparr>m_isActive := False\<rparr>)
                 (medications s)\<rparr>))"

text \<open>
  The read handlers share their first lines: the target is \<^verbatim>\<open>patientId || req.user.id\<close>,
  the access check runs only when a \<^verbatim>\<open>patientId\<close> was given (\<open>pid\<close> below), and the rows read are the
  target's active medications.
\<close>

definition targetOf :: "User \<Rightarrow> ident option \<Rightarrow> ident" where
  "targetOf reqUser pid = (case pid of None \<Rightarrow> u_id reqUser | Some p \<Rightarrow> p)"

definition accessDenied :: "Store \<Rightarrow> User \<Rightarrow> ident option \<Rightarrow> bool" where
  "accessDenied s reqUser pid =
     (pid \<noteq> None
      \<and> \<not> validateAccess (caregiverPatients s) reqUser (targetOf reqUser pid))"

definition activeMedications :: "Store \<Rightarrow> ident \<Rightarrow> Medication list" where
  "activeMedications s targetUserId =
     filter (\<lambda>m. m_userId m = targetUserId \<and> m_isActive m) (medications s)"

text \<open>
  The three stock tests of the controller. \<open>needsRefill\<close> is the callback of the filter
  in \<^verbatim>\<open>getRefillNeeded\<close>; \<open>isRefillDue\<close> is the flag that \<^verbatim>\<open>getUpcomingDoses\<close> sets, where
  the comparison \<^verbatim>\<open>null < 10\<close> reads null as zero; \<open>lowStock\<close> is the condition
  \<^verbatim>\<open>remainingQuantity: { [Op.lte]: 10 }\<close> of the count in \<^verbatim>\<open>getMedicationStats\<close>, which
  a null column does not satisfy.
\<close>

definition needsRefill :: "Medication \<Rightarrow> bool" where
  "needsRefill med =
     (let dailyDose = intOr (timesPerDay med) 1;
          threshold = dailyDose * 7
      in intOr (remainingQuantity med) 0 \<le> threshold)"

definition isRefillDue :: "Medication \<Rightarrow> bool" where
  "isRefillDue med = ((case remainingQuantity med of None \<Rightarrow> 0 | Some q \<Rightarrow> q) < 10)"

definition lowStock :: "Medication \<Rightarrow> bool" where
  "lowStock med = (case remainingQuantity med of None \<Rightarrow> False | Some q \<Rightarrow> q \<le> 10)"

text \<open>A nullable number read as a number: null counts as zero.\<close>

definition orZero :: "int option \<Rightarrow> int" where
  "orZero x = (case x of None \<Rightarrow> 0 | Some v \<Rightarrow> v)"

definition getRefillNeeded :: "User \<Rightarrow> ident option \<Rightarrow> Store \<Rightarrow> error + Medication list" where
  "getRefillNeeded reqUser pid s =
     (if accessDenied s reqUser pid then Inl AccessDenied
      else Inr (filter needsRefill (activeMedications s (targetOf reqUser pid))))"

definition getMedicationStats :: "User \<Rightarrow> ident option \<Rightarrow> Store \<Rightarrow> error + nat \<times> nat" where
  "getMedicationStats reqUser pid s =
     (if accessDenied s reqUser pid then Inl AccessDenied
      else
        let meds = activeMedications s (targetOf reqUser pid)
        in Inr (length meds, length (filter lowStock meds)))"

subsection \<open>Double-precision arithmetic\<close>

text \<open>
  Numbers of the source are IEEE 754 doubles. Whole numbers below \<open>2 ^ 53\<close> and their
  sums, differences and products below that bound are exact, and the model computes
  them as integers. A division, and every operation on its result, is rounded: the
  model computes the exact rational and rounds it with \<open>roundDouble\<close>, to the nearest
  number with a 53-bit significand, ties to the even significand, with the exponent
  not below -1022. Overflow is not modelled: no value here comes near \<open>2 ^ 1024\<close>.
  \<open>exponentOf x\<close> is the \<open>e\<close> with \<open>2 ^ e \<le> x < 2 ^ (e + 1)\<close> for a positive \<open>x\<close>.
  A date built from a number, and an hour given to \<^verbatim>\<open>setHours\<close>, drops the fraction,
  towards zero (\<open>truncQ\<close>).
\<close>

definition pow2 :: "int \<Rightarrow> rat" where
  "pow2 e = (if 0 \<le> e then 2 ^ nat e else 1 / 2 ^ nat (- e))"

definition exponentOf :: "rat \<Rightarrow> int" where
  "exponentOf x = (if 1 \<le> x then bitlen \<lfloor>x\<rfloor> - 1 else - bitlen (\<lceil>1 / x\<rceil> - 1))"

definition roundHalfEven :: "rat \<Rightarrow> int" where
  "roundHalfEven q =
     (let n = \<lfloor>q\<rfloor>; r = q - of_int n
      in if r < 1 / 2 then n else if 1 / 2 < r then n + 1 else if even n then n else n + 1)"

definition roundDouble :: "rat \<Rightarrow> rat" where
  "roundDouble x =
     (if x = 0 then 0
      else
        let m = \<bar>x\<bar>;
            e = max (exponentOf m) (- 1022);
            ulp = pow2 (e - 52)
        in sgn x * of_int (roundHalfEven (m / ulp)) * ulp)"

definition truncQ :: "rat \<Rightarrow> int" where
  "truncQ q = (if 0 \<le> q then \<lfloor>q\<rfloor> else \<lceil>q\<rceil>)"

definition msPerHour :: int where
  "msPerHour = 3600000"

definition msPerDay :: int where
  "msPerDay = 24 * msPerHour"

record UpcomingDose =
  ud_medicationId :: ident
  ud_medicationName :: string
  ud_dosage :: string
  ud_scheduledTime :: timestamp
  ud_isRefillDue :: bool

definition upcomingDose :: "timestamp \<Rightarrow> Medication \<Rightarrow> UpcomingDose" where
  "upcomingDose now med =
     (let intervalHours = roundDouble (24 / of_int (intOr (timesPerDay med) 1));
          millis = roundDouble (roundDouble (roundDouble (intervalHours * 60) * 60) * 1000)
      in \<lparr>ud_medicationId = m_id med,
          ud_medicationName = m_name med,
          ud_dosage = dosage med @ '' '' @ dosageUnit med,
          ud_scheduledTime = truncQ (roundDouble (of_int now + millis)),
          ud_isRefillDue = isRefillDue med\<rparr>)"

definition getUpcomingDoses ::
  "User \<Rightarrow> int option \<Rightarrow> ident option \<Rightarrow> timestamp \<Rightarrow> Store \<Rightarrow> error + UpcomingDose list" where
  "getUpcomingDoses reqUser hours pid now s =
     (if accessDenied s reqUser pid then Inl AccessDenied
      else
        let limitTime = now + (case hours of None \<Rightarrow> 24 | Some h \<Rightarrow> h) * 60 * 60 * 1000;
            upcomingDoses =
              filter (\<lambda>d. ud_scheduledTime d \<le> limitTime)
                (map (upcomingDose now) (activeMedications s (targetOf reqUser pid)))
        in Inr (sort_key ud_scheduledTime upcomingDoses))"

subsection \<open>The schedule generator\<close>

text \<open>
  A date holds an instant: milliseconds since the epoch, UTC. The server's zone enters
  through its two offsets: \<open>offsetAt z t\<close> is the offset of local time from UTC at the
  instant \<open>t\<close>, and \<open>offsetOfLocal z l\<close> is the offset that the zone assigns to the local
  clock reading \<open>l\<close> (for a reading that a clock change skips or repeats, the offset
  before the change). \<^verbatim>\<open>d.setDate(d.getDate() + n)\<close> reads the date in local time, adds
  \<open>n\<close> days and converts back; \<^verbatim>\<open>setHours(hour, 0, 0, 0)\<close> keeps the local calendar day
  and replaces the time of day by \<open>hour\<close> whole hours, where \<open>hour\<close> is truncated to an
  integer and is not reduced modulo 24. \<^verbatim>\<open>toISOString().split('T')[0]\<close> is the UTC
  calendar day, kept as a day number. The virtual id, a string of three parts in the
  source, is the triple of these parts.
\<close>

record Zone =
  offsetAt :: "timestamp \<Rightarrow> int"
  offsetOfLocal :: "int \<Rightarrow> int"

definition localTime :: "Zone \<Rightarrow> timestamp \<Rightarrow> int" where
  "localTime z t = t + offsetAt z t"

definition utcOf :: "Zone \<Rightarrow> int \<Rightarrow> timestamp" where
  "utcOf z l = l - offsetOfLocal z l"

definition setHours :: "Zone \<Rightarrow> timestamp \<Rightarrow> rat \<Rightarrow> timestamp" where
  "setHours z t hour =
     utcOf z ((localTime z t div msPerDay) * msPerDay + truncQ hour * msPerHour)"

definition addDate :: "Zone \<Rightarrow> timestamp \<Rightarrow> int \<Rightarrow> timestamp" where
  "addDate z t n = utcOf z (localTime z t + n * msPerDay)"

definition dayStr :: "timestamp \<Rightarrow> int" where
  "dayStr d = d div msPerDay"

record ScheduleEntry =
  se_id :: "ident \<times> int \<times> int"
  se_title :: string
  se_start :: timestamp
  se_end :: timestamp
  se_medicationId :: ident
  se_dosage :: string
  se_status :: string

definition doseEntry :: "Zone \<Rightarrow> timestamp \<Rightarrow> Medication \<Rightarrow> rat \<Rightarrow> int \<Rightarrow> ScheduleEntry" where
  "doseEntry z d med interval i =
     (let hour = roundDouble (8 + roundDouble (of_int i * interval));
          doseTime = setHours z d hour
      in \<lparr>se_id = (m_id med, dayStr d, i),
          se_title = ''Take '' @ m_name med,
          se_start = doseTime,
          se_end = doseTime + 30 * 60000,
          se_medicationId = m_id med,
          se_dosage = dosage med @ '' '' @ dosageUnit med,
          se_status = ''scheduled''\<rparr>)"

text \<open>
  The three nested loops, each pushing onto the list \<open>schedule\<close>; \<open>ntimes\<close> is the
  source's \<^verbatim>\<open>times\<close>. The loop over the dates ends when the date passes the end date;
  whether it does depends on the zone, so the loop is a partial function and \<open>None\<close>
  stands for a loop that does not end.
\<close>

function doseLoop ::
  "Zone \<Rightarrow> timestamp \<Rightarrow> Medication \<Rightarrow> int \<Rightarrow> rat \<Rightarrow> int \<Rightarrow> ScheduleEntry list
     \<Rightarrow> ScheduleEntry list" where
  "doseLoop z d med ntimes interval i schedule =
     (if i < ntimes
      then doseLoop z d med ntimes interval (i + 1) (schedule @ [doseEntry z d med interval i])
      else schedule)"
  by pat_completeness auto
termination
  by (relation "measure (\<lambda>(z, d, med, ntimes, interval, i, schedule). nat (ntimes - i))") auto

declare doseLoop.simps [simp del]

fun medLoop :: "Zone \<Rightarrow> timestamp \<Rightarrow> Medication list \<Rightarrow> ScheduleEntry list \<Rightarrow> ScheduleEntry list" where
  "medLoop z d [] schedule = schedule"
| "medLoop z d (med # meds) schedule =
     (let ntimes = intOr (timesPerDay med) 1;
          interval = roundDouble (24 / of_int ntimes)
      in medLoop z d meds (doseLoop z d med ntimes interval 0 schedule))"

partial_function (option) dayLoop ::
  "Zone \<Rightarrow> timestamp \<Rightarrow> timestamp \<Rightarrow> Medication list \<Rightarrow> ScheduleEntry list
     \<Rightarrow> ScheduleEntry list option" where
  "dayLoop z d endDate meds schedule =
     (if d \<le> endDate
      then dayLoop z (addDate z d 1) endDate meds (medLoop z d meds schedule)
      else Some schedule)"

declare dayLoop.simps [code]

definition generateSchedule ::
  "User \<Rightarrow> int option \<Rightarrow> timestamp option \<Rightarrow> ident option \<Rightarrow> timestamp \<Rightarrow> Zone \<Rightarrow> Store
     \<Rightarrow> (error + ScheduleEntry list) option" where
  "generateSchedule reqUser days startDate pid now z s =
     (if accessDenied s reqUser pid then Some (Inl AccessDenied)
      else
        let start = (case startDate of None \<Rightarrow> now | Some t \<Rightarrow> t);
            endDate = addDate z start (case days of None \<Rightarrow> 7 | Some n \<Rightarrow> n);
            meds = activeMedications s (targetOf reqUser pid)
        in map_option Inr (dayLoop z start endDate meds []))"


definition springZone :: "timestamp \<Rightarrow> Zone" where
  "springZone change =
     \<lparr>offsetAt = (\<lambda>t. if t < change then 0 else msPerHour),
      offsetOfLocal = (\<lambda>l. if l < change + msPerHour then 0 else msPerHour)\<rparr>"






definition localDay :: "int \<Rightarrow> timestamp \<Rightarrow> int" where
  "localDay c t = (t + c) div msPerDay"



section \<open>The adherence controller\<close>

record IntakeBody =
  ib_medicationId :: "ident option"
  ib_status :: "string option"
  ib_takenAt :: "timestamp option"
  ib_scheduledTime :: "timestamp option"

definition findMedicationByPk :: "Medication list \<Rightarrow> ident option \<Rightarrow> Medication option" where
  "findMedicationByPk rows k =
     (case k of None \<Rightarrow> None | Some k' \<Rightarrow> find (\<lambda>m. m_id m = k') rows)"

text \<open>
  \<^verbatim>\<open>med.decrement('remainingQuantity', { by: 1 })\<close> subtracts one from the column of the
  row with the medication's key; a null column stays null.
\<close>

definition decrement :: "Medication \<Rightarrow> Medication list \<Rightarrow> Medication list" where
  "decrement med rows =
     updateRows (\<lambda>m. m_id m = m_id med)
       (\<lambda>m. m\<lparr>remainingQuantity := map_option (\<lambda>q. q - 1) (remainingQuantity m)\<rparr>) rows"

definition recordAdherence ::
  "User \<Rightarrow> IntakeBody \<Rightarrow> timestamp \<Rightarrow> Store \<Rightarrow> (error + Adherence) \<times> Store" where
  "recordAdherence reqUser body now s =
     (let intake = \<lparr>a_id = freshId (map a_id (adherences s)),
                    a_userId = u_id reqUser,
                    a_medicationId = ib_medicationId body,
                    a_status = Some (strOr (ib_status body) ''taken''),
                    a_takenAt = timeOr (ib_takenAt body) now,
                    a_scheduledTime = Some (timeOr (ib_scheduledTime body) now)\<rparr>;
          s1 = s\<lparr>adherences := adherences s @ [intake]\<rparr>;
          s2 = (if ib_status body = Some ''taken''
                then (case findMedicationByPk (medications s1) (ib_medicationId body) of
                        None \<Rightarrow> s1
                      | Some med \<Rightarrow> s1\<lparr>medications := decrement med (medications s1)\<rparr>)
                else s1)
      in (Inr intake, s2))"

record AdherenceUpdates =
  au_userId :: "ident option"
  au_medicationId :: "ident option"
  au_status :: "string option"
  au_takenAt :: "timestamp option"
  au_scheduledTime :: "timestamp option"

definition applyAdherenceUpdates :: "AdherenceUpdates \<Rightarrow> Adherence \<Rightarrow> Adherence" where
  "applyAdherenceUpdates b r =
     r\<lparr>a_userId := (case au_userId b of None \<Rightarrow> a_userId r | Some v \<Rightarrow> v),
       a_medicationId :=
         (case au_medicationId b of None \<Rightarrow> a_medicationId r | Some v \<Rightarrow> Some v),
       a_status := (case au_status b of None \<Rightarrow> a_status r | Some v \<Rightarrow> Some v),
       a_takenAt := (case au_takenAt b of None \<Rightarrow> a_takenAt r | Some v \<Rightarrow> v),
       a_scheduledTime :=
         (case au_scheduledTime b of None \<Rightarrow> a_scheduledTime r | Some v \<Rightarrow> Some v)\<rparr>"

definition updateAdherenceRecord ::
  "User \<Rightarrow> ident \<Rightarrow> AdherenceUpdates \<Rightarrow> Store \<Rightarrow> (error + Adherence) \<times> Store" where
  "updateAdherenceRecord reqUser k updates s =
     (case find (\<lambda>r. a_id r = k) (adherences s) of
        None \<Rightarrow> (Inl NotFound, s)
      | Some found \<Rightarrow>
          if a_userId found \<noteq> u_id reqUser then (Inl AccessDenied, s)
          else
            (Inr (applyAdherenceUpdates updates found),
             s\<lparr>adherences :=
                 updateRows (\<lambda>r. a_id r = a_id found) (applyAdherenceUpdates updates)
                   (adherences s)\<rparr>))"

text \<open>
  A record of the bulk payload may carry any field, a \<^verbatim>\<open>userId\<close> included. The handler
  maps the payload to the values it hands to \<^verbatim>\<open>bulkCreate\<close>, which appends one row for
  each, in order. A payload that is not an array is \<open>None\<close>.
\<close>

record BulkItem =
  bi_userId :: "ident option"
  bi_medicationId :: "ident option"
  bi_status :: "string option"
  bi_takenAt :: "timestamp option"
  bi_scheduledTime :: "timestamp option"

record AdherenceValues =
  av_userId :: ident
  av_medicationId :: "ident option"
  av_status :: "string option"
  av_takenAt :: timestamp
  av_scheduledTime :: "timestamp option"

fun bulkCreate :: "Adherence list \<Rightarrow> AdherenceValues list \<Rightarrow> Adherence list \<times> Adherence list" where
  "bulkCreate rows [] = ([], rows)"
| "bulkCreate rows (v # vs) =
     (let r = \<lparr>a_id = freshId (map a_id rows),
               a_userId = av_userId v,
               a_medicationId = av_medicationId v,
               a_status = av_status v,
               a_takenAt = av_takenAt v,
               a_scheduledTime = av_scheduledTime v\<rparr>;
          rest = bulkCreate (rows @ [r]) vs
      in (r # fst rest, snd rest))"

definition bulkRecordAdherence ::
  "User \<Rightarrow> BulkItem list option \<Rightarrow> timestamp \<Rightarrow> Store \<Rightarrow> (error + Adherence list) \<times> Store" where
  "bulkRecordAdherence reqUser records now s =
     (case records of
        None \<Rightarrow> (Inl BadRequest, s)
      | Some rs \<Rightarrow>
          if length rs = 0 then (Inl BadRequest, s)
          else
            let adherenceRecords =
                  map (\<lambda>item. \<lparr>av_userId = u_id reqUser,
                                av_medicationId = bi_medicationId item,
                                av_status = bi_status item,
                                av_takenAt = timeOr (bi_takenAt item) now,
                                av_scheduledTime = bi_scheduledTime item\<rparr>) rs;
                created = bulkCreate (adherences s) adherenceRecords
            in (Inr (fst created), s\<lparr>adherences := snd created\<rparr>))"

section \<open>Sample data\<close>

text \<open>
  Users, rows and request bodies on which the closed instances below are evaluated.
\<close>

definition patient1 :: User where
  "patient1 = \<lparr>u_id = 1, u_email = ''p@x'', u_firstName = ''Pat'', u_lastName = ''One'',
                u_role = ''patient''\<rparr>"

definition caregiver7 :: User where
  "caregiver7 = \<lparr>u_id = 7, u_email = ''c7@x'', u_firstName = ''Cara'', u_lastName = ''Seven'',
                  u_role = ''caregiver''\<rparr>"

definition caregiver8 :: User where
  "caregiver8 = \<lparr>u_id = 8, u_email = ''c8@x'', u_firstName = ''Carl'', u_lastName = ''Eight'',
                  u_role = ''caregiver''\<rparr>"

definition caregiver9 :: User where
  "caregiver9 = \<lparr>u_id = 9, u_email = ''c9@x'', u_firstName = ''Cleo'', u_lastName = ''Nine'',
                  u_role = ''caregiver''\<rparr>"

definition relStore :: Store where
  "relStore =
     \<lparr>users = [patient1, caregiver7, caregiver8, caregiver9],
      caregiverPatients =
        [\<lparr>cp_id = 1, caregiverId = 7, patientId = 1, relationship = ''family'',
          permissions = [''viewMedications''], isVerified = False, cp_isActive = True\<rparr>,
         \<lparr>cp_id = 2, caregiverId = 8, patientId = 1, relationship = ''nurse'',
          permissions = [''viewMedications''], isVerified = False, cp_isActive = False\<rparr>],
      medications = [],
      adherences = [],
      notifications = []\<rparr>"

definition admin5 :: User where
  "admin5 = \<lparr>u_id = 5, u_email = ''a@x'', u_firstName = ''Ada'', u_lastName = ''Five'',
              u_role = ''admin''\<rparr>"

definition pills :: Medication where
  "pills = \<lparr>m_id = 1, m_userId = 1, m_name = ''Aspirin'', dosage = ''100'', dosageUnit = ''mg'',
             timesPerDay = Some 2, totalQuantity = Some 30, remainingQuantity = Some 5,
             m_isActive = True\<rparr>"

definition dose1 :: Adherence where
  "dose1 = \<lparr>a_id = 1, a_userId = 1, a_medicationId = Some 1, a_status = Some ''missed'',
             a_takenAt = 1000, a_scheduledTime = Some 1000\<rparr>"

definition careStore :: Store where
  "careStore =
     \<lparr>users = [patient1, admin5, caregiver7],
      caregiverPatients =
        [\<lparr>cp_id = 1, caregiverId = 7, patientId = 1, relationship = ''family'',
          permissions = [''viewMedications''], isVerified = True, cp_isActive = True\<rparr>],
      medications = [pills],
      adherences = [dose1],
      notifications = []\<rparr>"

definition markTaken :: AdherenceUpdates where
  "markTaken = \<lparr>au_userId = None, au_medicationId = None, au_status = Some ''taken'',
                 au_takenAt = None, au_scheduledTime = None\<rparr>"

definition zeroStockPatch :: MedicationUpdates where
  "zeroStockPatch = \<lparr>mu_userId = None, mu_name = None, mu_dosage = None, mu_dosageUnit = None,
      mu_timesPerDay = None, mu_totalQuantity = None, mu_remainingQuantity = Some 0,
      mu_isActive = None\<rparr>"

definition takenBody :: IntakeBody where
  "takenBody = \<lparr>ib_medicationId = Some 1, ib_status = Some ''taken'', ib_takenAt = None,
                 ib_scheduledTime = None\<rparr>"

definition noStatusBody :: IntakeBody where
  "noStatusBody = \<lparr>ib_medicationId = Some 1, ib_status = None, ib_takenAt = None,
                    ib_scheduledTime = None\<rparr>"

definition emptyStock :: Store where
  "emptyStock = careStore\<lparr>medications := [pills\<lparr>remainingQuantity := Some 0\<rparr>]\<rparr>"

definition forgedItem :: BulkItem where
  "forgedItem = \<lparr>bi_userId = Some 1, bi_medicationId = Some 1, bi_status = Some ''taken'',
                  bi_takenAt = Some 2000, bi_scheduledTime = None\<rparr>"

definition takenItem :: BulkItem where
  "takenItem = \<lparr>bi_userId = None, bi_medicationId = Some 1, bi_status = Some ''taken'',
                 bi_takenAt = None, bi_scheduledTime = Some 2000\<rparr>"

definition twelveLeft :: Store where
  "twelveLeft = careStore\<lparr>medications := [pills\<lparr>remainingQuantity := Some 12\<rparr>]\<rparr>"




section \<open>The access check: what holds\<close>

lemma find_SomeD: "find P xs = Some x \<Longrightarrow> x \<in> set xs \<and> P x"
  by (induction xs) (auto split: if_splits)

lemma find_NoneD: "find P xs = None \<Longrightarrow> x \<in> set xs \<Longrightarrow> \<not> P x"
  by (induction xs) (auto split: if_splits)

text \<open>
  Claim C1, as the code has it: the access check answers true exactly for self access,
  for the roles admin and healthcareprovider, and for a requester whose role is caregiver
  and who has an active, verified relationship row to the target. The relationship row
  is consulted only for the role caregiver.
\<close>

theorem validateAccess_iff:
  "validateAccess cps R T \<longleftrightarrow>
     (u_id R = T \<or> u_role R = ''admin'' \<or> u_role R = ''healthcareprovider''
      \<or> (u_role R = ''caregiver''
          \<and> (\<exists>r \<in> set cps. caregiverId r = u_id R \<and> patientId r = T
                \<and> cp_isActive r \<and> isVerified r)))"
proof (cases "find (\<lambda>r. caregiverId r = u_id R \<and> patientId r = T
                          \<and> cp_isActive r \<and> isVerified r) cps")
  case None
  from find_NoneD [OF None] show ?thesis
    by (auto simp: validateAccess_def None)
next
  case (Some rel)
  from find_SomeD [OF Some] show ?thesis
    by (auto simp: validateAccess_def Some)
qed

theorem validateAccess_iff_witness:
  "validateAccess
     [\<lparr>cp_id = 1, caregiverId = 7, patientId = 2, relationship = ''family'',
       permissions = [''viewMedications''], isVerified = True, cp_isActive = True\<rparr>]
     \<lparr>u_id = 7, u_email = ''c@x'', u_firstName = ''C'', u_lastName = ''G'',
      u_role = ''caregiver''\<rparr> 2
   \<and> \<not> validateAccess
     [\<lparr>cp_id = 1, caregiverId = 7, patientId = 2, relationship = ''family'',
       permissions = [''viewMedications''], isVerified = False, cp_isActive = True\<rparr>]
     \<lparr>u_id = 7, u_email = ''c@x'', u_firstName = ''C'', u_lastName = ''G'',
      u_role = ''caregiver''\<rparr> 2"
  using validateAccess_iff
    [of "[\<lparr>cp_id = 1, caregiverId = 7, patientId = 2, relationship = ''family'',
           permissions = [''viewMedications''], isVerified = True, cp_isActive = True\<rparr>]"
        "\<lparr>u_id = 7, u_email = ''c@x'', u_firstName = ''C'', u_lastName = ''G'',
          u_role = ''caregiver''\<rparr>" 2]
    validateAccess_iff
    [of "[\<lparr>cp_id = 1, caregiverId = 7, patientId = 2, relationship = ''family'',
           permissions = [''viewMedications''], isVerified = False, cp_isActive = True\<rparr>]"
        "\<lparr>u_id = 7, u_email = ''c@x'', u_firstName = ''C'', u_lastName = ''G'',
          u_role = ''caregiver''\<rparr>" 2]
  by simp

text \<open>
  The claim as worded fails for a requester whose role is patient and who is the
  caregiver side of an active, verified relationship row: the worded rule allows, the
  code denies.
\<close>

theorem validateAccess_patient_role_counterexample:
  "authorize_spec
     [\<lparr>cp_id = 1, caregiverId = 7, patientId = 2, relationship = ''family'',
       permissions = [''viewMedications''], isVerified = True, cp_isActive = True\<rparr>]
     \<lparr>u_id = 7, u_email = ''c@x'', u_firstName = ''C'', u_lastName = ''G'',
      u_role = ''patient''\<rparr> 2
   \<and> \<not> validateAccess
     [\<lparr>cp_id = 1, caregiverId = 7, patientId = 2, relationship = ''family'',
       permissions = [''viewMedications''], isVerified = True, cp_isActive = True\<rparr>]
     \<lparr>u_id = 7, u_email = ''c@x'', u_firstName = ''C'', u_lastName = ''G'',
      u_role = ''patient''\<rparr> 2"
  by (simp add: authorize_spec_def validateAccess_def)

section \<open>The relationship lifecycle\<close>


lemma updateRows_length [simp]: "length (updateRows P f rows) = length rows"
  by (simp add: updateRows_def)

lemma updateRows_nth:
  "i < length rows \<Longrightarrow> updateRows P f rows ! i = (if P (rows ! i) then f (rows ! i) else rows ! i)"
  by (simp add: updateRows_def)

lemma find_None_iff_no_row: "(find P xs = None) = (\<forall>x \<in> set xs. \<not> P x)"
  by (induction xs) auto

lemma inviteCaregiver_creates_pending:
  assumes "inviteCaregiver u email rel perms s = (Inr x, s')"
  shows "\<exists>link. caregiverPatients s' = caregiverPatients s @ [link]
           \<and> \<not> isVerified link \<and> cp_isActive link \<and> patientId link = u_id u"
  using assms
  by (auto simp: inviteCaregiver_def Let_def split: option.splits if_splits)

lemma acceptInvitation_result:
  assumes "acceptInvitation u k s = (Inr r, s')"
  shows "caregiverPatients s' =
           updateRows (\<lambda>r. cp_id r = k) (\<lambda>r. r\<lparr>isVerified := True\<rparr>) (caregiverPatients s)
         \<and> (\<exists>rel \<in> set (caregiverPatients s). cp_id rel = k \<and> caregiverId rel = u_id u
               \<and> \<not> isVerified rel \<and> cp_isActive rel \<and> r = rel\<lparr>isVerified := True\<rparr>)"
  using assms
  by (auto simp: acceptInvitation_def split: option.splits dest!: find_SomeD)

lemma declineInvitation_result:
  assumes "declineInvitation u k s = (Inr x, s')"
  shows "caregiverPatients s' =
           updateRows (\<lambda>r. cp_id r = k) (\<lambda>r. r\<lparr>cp_isActive := False\<rparr>) (caregiverPatients s)
         \<and> (\<exists>rel \<in> set (caregiverPatients s). cp_id rel = k \<and> caregiverId rel = u_id u
               \<and> \<not> isVerified rel \<and> cp_isActive rel)"
  using assms
  by (auto simp: declineInvitation_def split: option.splits dest!: find_SomeD)

lemma closed_not_found:
  assumes "\<forall>r \<in> set (caregiverPatients s). cp_id r = k \<longrightarrow> \<not> cp_isActive r \<or> isVerified r"
  shows "acceptInvitation u k s = (Inl NotFound, s)"
    and "declineInvitation u k s = (Inl NotFound, s)"
proof -
  have "find (\<lambda>r. cp_id r = k \<and> caregiverId r = u_id u
                      \<and> \<not> isVerified r \<and> cp_isActive r) (caregiverPatients s) = None"
    using assms by (auto simp: find_None_iff_no_row)
  then show "acceptInvitation u k s = (Inl NotFound, s)"
    and "declineInvitation u k s = (Inl NotFound, s)"
    by (simp_all add: acceptInvitation_def declineInvitation_def)
qed

lemma relStep_keeps_closed:
  assumes "i < length (caregiverPatients s)" "\<not> cp_isActive (caregiverPatients s ! i)"
  shows "i < length (caregiverPatients (relStep x s))
         \<and> \<not> cp_isActive (caregiverPatients (relStep x s) ! i)
         \<and> cp_id (caregiverPatients (relStep x s) ! i) = cp_id (caregiverPatients s ! i)"
proof (cases x)
  case (Invite u email rel perms)
  with assms show ?thesis
    by (auto simp: inviteCaregiver_def Let_def nth_append split: option.splits)
next
  case (Accept u k)
  with assms show ?thesis
    by (auto simp: acceptInvitation_def updateRows_nth split: option.splits)
next
  case (Decline u k)
  with assms show ?thesis
    by (auto simp: declineInvitation_def updateRows_nth split: option.splits)
next
  case (Remove u k)
  with assms show ?thesis
    by (auto simp: removeCaregiver_def Let_def updateRows_nth split: option.splits)
qed

lemma relRun_keeps_closed:
  "i < length (caregiverPatients s) \<Longrightarrow> \<not> cp_isActive (caregiverPatients s ! i) \<Longrightarrow>
   i < length (caregiverPatients (relRun ops s))
   \<and> \<not> cp_isActive (caregiverPatients (relRun ops s) ! i)
   \<and> cp_id (caregiverPatients (relRun ops s) ! i) = cp_id (caregiverPatients s ! i)"
proof (induction ops arbitrary: s)
  case Nil
  then show ?case by simp
next
  case (Cons x ops)
  from relStep_keeps_closed [OF Cons.prems, of x]
  have step: "i < length (caregiverPatients (relStep x s))"
    "\<not> cp_isActive (caregiverPatients (relStep x s) ! i)"
    "cp_id (caregiverPatients (relStep x s) ! i) = cp_id (caregiverPatients s ! i)"
    by simp_all
  from Cons.IH [OF step(1) step(2)] step(3) show ?case by simp
qed


lemma succeededD: "\<not> isl (fst p) \<Longrightarrow> \<exists>x s'. p = (Inr x, s')"
  by (cases p; cases "fst p") simp_all

lemma updateRows_setD:
  "r \<in> set (updateRows P f rows) \<Longrightarrow> \<exists>r0 \<in> set rows. r = (if P r0 then f r0 else r0)"
  by (auto simp: updateRows_def)

lemma accept_closes_key:
  assumes "acceptInvitation c k s = (Inr r, s2)"
  shows "\<forall>r \<in> set (caregiverPatients s2). cp_id r = k \<longrightarrow> \<not> cp_isActive r \<or> isVerified r"
proof (intro ballI impI)
  fix x assume x: "x \<in> set (caregiverPatients s2)" "cp_id x = k"
  have "caregiverPatients s2
      = updateRows (\<lambda>r. cp_id r = k) (\<lambda>r. r\<lparr>isVerified := True\<rparr>) (caregiverPatients s)"
    using acceptInvitation_result [OF assms] by simp
  with x(1) obtain r0 where "x = (if cp_id r0 = k then r0\<lparr>isVerified := True\<rparr> else r0)"
    using updateRows_setD by fastforce
  with x(2) show "\<not> cp_isActive x \<or> isVerified x"
    by (cases "cp_id r0 = k") simp_all
qed

lemma decline_closes_key:
  assumes "declineInvitation c k s = (Inr y, s3)"
  shows "\<forall>r \<in> set (caregiverPatients s3). cp_id r = k \<longrightarrow> \<not> cp_isActive r \<or> isVerified r"
proof (intro ballI impI)
  fix x assume x: "x \<in> set (caregiverPatients s3)" "cp_id x = k"
  have "caregiverPatients s3
      = updateRows (\<lambda>r. cp_id r = k) (\<lambda>r. r\<lparr>cp_isActive := False\<rparr>) (caregiverPatients s)"
    using declineInvitation_result [OF assms] by simp
  with x(1) obtain r0 where "x = (if cp_id r0 = k then r0\<lparr>cp_isActive := False\<rparr> else r0)"
    using updateRows_setD by fastforce
  with x(2) show "\<not> cp_isActive x \<or> isVerified x"
    by (cases "cp_id r0 = k") simp_all
qed

lemma lifecycle_invite:
  assumes "\<not> isl (fst (inviteCaregiver p email rel perms s))"
  shows "caregiverPatients (snd (inviteCaregiver p email rel perms s))
        = caregiverPatients s @ [last (caregiverPatients (snd (inviteCaregiver p email rel perms s)))]
      \<and> \<not> isVerified (last (caregiverPatients (snd (inviteCaregiver p email rel perms s))))
      \<and> cp_isActive (last (caregiverPatients (snd (inviteCaregiver p email rel perms s))))"
proof -
  from succeededD [OF assms]
  obtain x s1 where res: "inviteCaregiver p email rel perms s = (Inr x, s1)" by blast
  from inviteCaregiver_creates_pending [OF res]
  obtain link where link: "caregiverPatients s1 = caregiverPatients s @ [link]"
    "\<not> isVerified link" "cp_isActive link" by blast
  have "snd (inviteCaregiver p email rel perms s) = s1" by (simp add: res)
  with link show ?thesis by simp
qed

lemma lifecycle_accept:
  assumes "\<not> isl (fst (acceptInvitation c k s))"
  shows "caregiverPatients (snd (acceptInvitation c k s))
          = updateRows (\<lambda>r. cp_id r = k) (\<lambda>r. r\<lparr>isVerified := True\<rparr>) (caregiverPatients s)
        \<and> acceptInvitation c' k (snd (acceptInvitation c k s))
            = (Inl NotFound, snd (acceptInvitation c k s))
        \<and> declineInvitation c' k (snd (acceptInvitation c k s))
            = (Inl NotFound, snd (acceptInvitation c k s))"
proof -
  from succeededD [OF assms]
  obtain r s2 where res: "acceptInvitation c k s = (Inr r, s2)" by blast
  have s2: "snd (acceptInvitation c k s) = s2" by (simp add: res)
  have tab: "caregiverPatients s2
      = updateRows (\<lambda>r. cp_id r = k) (\<lambda>r. r\<lparr>isVerified := True\<rparr>) (caregiverPatients s)"
    using acceptInvitation_result [OF res] by simp
  note closed = accept_closes_key [OF res]
  show ?thesis
    unfolding s2 using tab closed_not_found(1) [OF closed] closed_not_found(2) [OF closed]
    by blast
qed

lemma lifecycle_decline:
  assumes "\<not> isl (fst (declineInvitation c k s))"
  shows "caregiverPatients (snd (declineInvitation c k s))
          = updateRows (\<lambda>r. cp_id r = k) (\<lambda>r. r\<lparr>cp_isActive := False\<rparr>) (caregiverPatients s)
        \<and> acceptInvitation c' k (snd (declineInvitation c k s))
            = (Inl NotFound, snd (declineInvitation c k s))
        \<and> declineInvitation c' k (snd (declineInvitation c k s))
            = (Inl NotFound, snd (declineInvitation c k s))"
proof -
  from succeededD [OF assms]
  obtain x s3 where res: "declineInvitation c k s = (Inr x, s3)" by blast
  have s3: "snd (declineInvitation c k s) = s3" by (simp add: res)
  have tab: "caregiverPatients s3
      = updateRows (\<lambda>r. cp_id r = k) (\<lambda>r. r\<lparr>cp_isActive := False\<rparr>) (caregiverPatients s)"
    using declineInvitation_result [OF res] by simp
  note closed = decline_closes_key [OF res]
  show ?thesis
    unfolding s3 using tab closed_not_found(1) [OF closed] closed_not_found(2) [OF closed]
    by blast
qed

text \<open>
  Claim C7: an invitation that succeeds appends a row that is not verified and active;
  an acceptance that succeeds sets \<open>isVerified\<close> on the rows with the invitation's key,
  a decline that succeeds clears \<open>isActive\<close> on them, and after either one every further
  acceptance or decline of that key, by anyone, answers NotFound and leaves the store as
  it is; the same holds for any key all of whose rows are inactive or verified. Through
  any sequence of invitations, acceptances, declines and removals a row that is
  inactive stays inactive.
\<close>

theorem relationship_lifecycle:
  "(\<not> isl (fst (inviteCaregiver p email rel perms s)) \<longrightarrow>
      caregiverPatients (snd (inviteCaregiver p email rel perms s))
        = caregiverPatients s @ [last (caregiverPatients (snd (inviteCaregiver p email rel perms s)))]
      \<and> \<not> isVerified (last (caregiverPatients (snd (inviteCaregiver p email rel perms s))))
      \<and> cp_isActive (last (caregiverPatients (snd (inviteCaregiver p email rel perms s)))))
   \<and> (\<not> isl (fst (acceptInvitation c k s)) \<longrightarrow>
        caregiverPatients (snd (acceptInvitation c k s))
          = updateRows (\<lambda>r. cp_id r = k) (\<lambda>r. r\<lparr>isVerified := True\<rparr>) (caregiverPatients s)
        \<and> acceptInvitation c' k (snd (acceptInvitation c k s))
            = (Inl NotFound, snd (acceptInvitation c k s))
        \<and> declineInvitation c' k (snd (acceptInvitation c k s))
            = (Inl NotFound, snd (acceptInvitation c k s)))
   \<and> (\<not> isl (fst (declineInvitation c k s)) \<longrightarrow>
        caregiverPatients (snd (declineInvitation c k s))
          = updateRows (\<lambda>r. cp_id r = k) (\<lambda>r. r\<lparr>cp_isActive := False\<rparr>) (caregiverPatients s)
        \<and> acceptInvitation c' k (snd (declineInvitation c k s))
            = (Inl NotFound, snd (declineInvitation c k s))
        \<and> declineInvitation c' k (snd (declineInvitation c k s))
            = (Inl NotFound, snd (declineInvitation c k s)))
   \<and> ((\<forall>r \<in> set (caregiverPatients s). cp_id r = k' \<longrightarrow> \<not> cp_isActive r \<or> isVerified r) \<longrightarrow>
        acceptInvitation c' k' s = (Inl NotFound, s)
        \<and> declineInvitation c' k' s = (Inl NotFound, s))
   \<and> (i < length (caregiverPatients s) \<and> \<not> cp_isActive (caregiverPatients s ! i) \<longrightarrow>
        i < length (caregiverPatients (relRun ops s))
        \<and> \<not> cp_isActive (caregiverPatients (relRun ops s) ! i))"
proof (intro conjI)
  show "\<not> isl (fst (inviteCaregiver p email rel perms s)) \<longrightarrow>
      caregiverPatients (snd (inviteCaregiver p email rel perms s))
        = caregiverPatients s @ [last (caregiverPatients (snd (inviteCaregiver p email rel perms s)))]
      \<and> \<not> isVerified (last (caregiverPatients (snd (inviteCaregiver p email rel perms s))))
      \<and> cp_isActive (last (caregiverPatients (snd (inviteCaregiver p email rel perms s))))"
    by (rule impI) (rule lifecycle_invite)
  show "\<not> isl (fst (acceptInvitation c k s)) \<longrightarrow>
        caregiverPatients (snd (acceptInvitation c k s))
          = updateRows (\<lambda>r. cp_id r = k) (\<lambda>r. r\<lparr>isVerified := True\<rparr>) (caregiverPatients s)
        \<and> acceptInvitation c' k (snd (acceptInvitation c k s))
            = (Inl NotFound, snd (acceptInvitation c k s))
        \<and> declineInvitation c' k (snd (acceptInvitation c k s))
            = (Inl NotFound, snd (acceptInvitation c k s))"
    by (rule impI) (rule lifecycle_accept)
  show "\<not> isl (fst (declineInvitation c k s)) \<longrightarrow>
        caregiverPatients (snd (declineInvitation c k s))
          = updateRows (\<lambda>r. cp_id r = k) (\<lambda>r. r\<lparr>cp_isActive := False\<rparr>) (caregiverPatients s)
        \<and> acceptInvitation c' k (snd (declineInvitation c k s))
            = (Inl NotFound, snd (declineInvitation c k s))
        \<and> declineInvitation c' k (snd (declineInvitation c k s))
            = (Inl NotFound, snd (declineInvitation c k s))"
    by (rule impI) (rule lifecycle_decline)
  show "(\<forall>r \<in> set (caregiverPatients s). cp_id r = k' \<longrightarrow> \<not> cp_isActive r \<or> isVerified r) \<longrightarrow>
        acceptInvitation c' k' s = (Inl NotFound, s)
        \<and> declineInvitation c' k' s = (Inl NotFound, s)"
    using closed_not_found [of s k' c'] by blast
  show "i < length (caregiverPatients s) \<and> \<not> cp_isActive (caregiverPatients s ! i) \<longrightarrow>
        i < length (caregiverPatients (relRun ops s))
        \<and> \<not> cp_isActive (caregiverPatients (relRun ops s) ! i)"
    using relRun_keeps_closed [of i s ops] by blast
qed

lemmas rel_eval = relStore_def patient1_def caregiver7_def caregiver8_def caregiver9_def
    inviteCaregiver_def acceptInvitation_def declineInvitation_def removeCaregiver_def
    updateRows_def freshId_def strOr_def Let_def

theorem relationship_lifecycle_witness:
  "\<not> isl (fst (inviteCaregiver patient1 ''c9@x'' None None relStore))
   \<and> \<not> isVerified (last (caregiverPatients (snd (inviteCaregiver patient1 ''c9@x'' None None relStore))))
   \<and> cp_isActive (last (caregiverPatients (snd (inviteCaregiver patient1 ''c9@x'' None None relStore))))
   \<and> \<not> isl (fst (acceptInvitation caregiver7 1 relStore))
   \<and> acceptInvitation caregiver7 1 (snd (acceptInvitation caregiver7 1 relStore))
      = (Inl NotFound, snd (acceptInvitation caregiver7 1 relStore))
   \<and> \<not> isl (fst (declineInvitation caregiver7 1 relStore))
   \<and> acceptInvitation caregiver7 1 (snd (declineInvitation caregiver7 1 relStore))
      = (Inl NotFound, snd (declineInvitation caregiver7 1 relStore))
   \<and> map (\<lambda>r. (cp_id r, cp_isActive r, isVerified r)) (caregiverPatients relStore)
      = [(1, True, False), (2, False, False)]
   \<and> declineInvitation caregiver7 2 relStore = (Inl NotFound, relStore)
   \<and> (1::nat) < length (caregiverPatients relStore)
   \<and> \<not> cp_isActive (caregiverPatients relStore ! 1)
   \<and> \<not> cp_isActive (caregiverPatients
          (relRun [Accept caregiver8 2, Invite patient1 ''c8@x'' None None, Accept caregiver8 3]
             relStore) ! 1)"
proof -
  have h1: "\<not> isl (fst (inviteCaregiver patient1 ''c9@x'' None None relStore))"
    by (simp add: rel_eval)
  have h2: "\<not> isl (fst (acceptInvitation caregiver7 1 relStore))"
    by (simp add: rel_eval)
  have h3: "\<not> isl (fst (declineInvitation caregiver7 1 relStore))"
    by (simp add: rel_eval)
  have h4: "\<forall>r \<in> set (caregiverPatients relStore). cp_id r = 2 \<longrightarrow> \<not> cp_isActive r \<or> isVerified r"
    by (simp add: relStore_def)
  have h5: "(1::nat) < length (caregiverPatients relStore)
            \<and> \<not> cp_isActive (caregiverPatients relStore ! 1)"
    by (simp add: relStore_def)
  from relationship_lifecycle
    [of patient1 "''c9@x''" None None relStore caregiver7 1 caregiver7 2 1
        "[Accept caregiver8 2, Invite patient1 ''c8@x'' None None, Accept caregiver8 3]"]
    h1 h2 h3 h4 h5
  show ?thesis by (simp add: relStore_def)
qed

lemmas care_eval = careStore_def patient1_def caregiver7_def admin5_def pills_def dose1_def
  markTaken_def

section \<open>Writes to adherence records and medications\<close>

text \<open>
  Claim C8: an update of an adherence record goes through exactly when the record with
  that key exists and belongs to the requester; it then rewrites that record and nothing
  else, and every other call leaves the store as it is. A requester who passes the access
  check for the record's owner, such as a verified caregiver, is still answered
  AccessDenied.
\<close>


theorem updateAdherenceRecord_owner_only:
  "(\<not> isl (fst (updateAdherenceRecord u k updates s))
      \<longleftrightarrow> (\<exists>found. find (\<lambda>r. a_id r = k) (adherences s) = Some found \<and> a_userId found = u_id u))
   \<and> (\<not> isl (fst (updateAdherenceRecord u k updates s)) \<longrightarrow>
        snd (updateAdherenceRecord u k updates s)
          = s\<lparr>adherences := updateRows (\<lambda>r. a_id r = k) (applyAdherenceUpdates updates)
                               (adherences s)\<rparr>)
   \<and> (isl (fst (updateAdherenceRecord u k updates s)) \<longrightarrow>
        snd (updateAdherenceRecord u k updates s) = s)
   \<and> (find (\<lambda>r. a_id r = k) (adherences s) = Some owned \<and> a_userId owned \<noteq> u_id u
        \<and> validateAccess (caregiverPatients s) u (a_userId owned) \<longrightarrow>
        updateAdherenceRecord u k updates s = (Inl AccessDenied, s))"
proof (cases "find (\<lambda>r. a_id r = k) (adherences s)")
  case None
  then show ?thesis by (simp add: updateAdherenceRecord_def)
next
  case (Some found)
  from find_SomeD [OF Some] have "a_id found = k" by simp
  with Some show ?thesis by (simp add: updateAdherenceRecord_def)
qed

theorem updateAdherenceRecord_owner_only_witness:
  "\<not> isl (fst (updateAdherenceRecord patient1 1 markTaken careStore))
   \<and> map a_status (adherences (snd (updateAdherenceRecord patient1 1 markTaken careStore)))
      = [Some ''taken'']
   \<and> find (\<lambda>r. a_id r = 1) (adherences careStore) = Some dose1
   \<and> a_userId dose1 \<noteq> u_id caregiver7
   \<and> validateAccess (caregiverPatients careStore) caregiver7 (a_userId dose1)
   \<and> isl (fst (updateAdherenceRecord caregiver7 1 markTaken careStore))
   \<and> updateAdherenceRecord caregiver7 1 markTaken careStore = (Inl AccessDenied, careStore)"
proof -
  have h1: "find (\<lambda>r. a_id r = 1) (adherences careStore) = Some dose1"
    by (simp add: careStore_def dose1_def)
  have h2: "a_userId dose1 = u_id patient1" "a_userId dose1 \<noteq> u_id caregiver7"
    by (simp_all add: care_eval)
  have h3: "validateAccess (caregiverPatients careStore) caregiver7 (a_userId dose1)"
    by (simp add: care_eval validateAccess_def)
  have h4: "map a_status (updateRows (\<lambda>r. a_id r = 1) (applyAdherenceUpdates markTaken)
              (adherences careStore)) = [Some ''taken'']"
    by (simp add: care_eval updateRows_def applyAdherenceUpdates_def)
  from updateAdherenceRecord_owner_only [of patient1 1 markTaken careStore dose1]
    updateAdherenceRecord_owner_only [of caregiver7 1 markTaken careStore dose1]
    h1 h2 h3 h4
  show ?thesis by simp
qed

text \<open>
  Claim C10: when no medication with the given key belongs to the requester, both the
  update and the deletion answer NotFound and leave the store as it is; the requester's
  role plays no part.
\<close>


theorem medication_write_owner_only:
  "(\<forall>m \<in> set (medications s). m_id m = k \<longrightarrow> m_userId m \<noteq> u_id u) \<longrightarrow>
     updateMedication u k body s = (Inl NotFound, s)
     \<and> deleteMedication u k s = (Inl NotFound, s)"
proof
  assume "\<forall>m \<in> set (medications s). m_id m = k \<longrightarrow> m_userId m \<noteq> u_id u"
  then have "find (\<lambda>m. m_id m = k \<and> m_userId m = u_id u) (medications s) = None"
    by (auto simp: find_None_iff_no_row)
  then show "updateMedication u k body s = (Inl NotFound, s)
     \<and> deleteMedication u k s = (Inl NotFound, s)"
    by (simp add: updateMedication_def deleteMedication_def)
qed

theorem medication_write_owner_only_witness:
  "map (\<lambda>m. (m_id m, m_userId m)) (medications careStore) = [(1, 1)]
   \<and> u_id admin5 = 5
   \<and> validateAccess (caregiverPatients careStore) admin5 1
   \<and> updateMedication admin5 1 zeroStockPatch careStore = (Inl NotFound, careStore)
   \<and> deleteMedication admin5 1 careStore = (Inl NotFound, careStore)"
proof -
  have h: "\<forall>m \<in> set (medications careStore). m_id m = 1 \<longrightarrow> m_userId m \<noteq> u_id admin5"
    by (simp add: care_eval)
  have v: "validateAccess (caregiverPatients careStore) admin5 1"
    by (simp add: care_eval validateAccess_def)
  from medication_write_owner_only [of careStore 1 admin5 zeroStockPatch] h v
  show ?thesis by (simp add: care_eval)
qed

section \<open>Recording intake\<close>

lemma find_updateRows_key:
  assumes "\<And>r. key (f r) = key r"
  shows "find (\<lambda>r. key r = k) (updateRows (\<lambda>r. key r = k') f rows)
         = map_option (\<lambda>r. if key r = k' then f r else r) (find (\<lambda>r. key r = k) rows)"
  by (induction rows) (auto simp: updateRows_def assms)

lemma findMedicationByPk_decrement:
  "findMedicationByPk (decrement med rows) (Some k)
   = map_option (\<lambda>m. if m_id m = m_id med
                       then m\<lparr>remainingQuantity := map_option (\<lambda>q. q - 1) (remainingQuantity m)\<rparr>
                       else m)
       (findMedicationByPk rows (Some k))"
  unfolding findMedicationByPk_def decrement_def option.case
  by (rule find_updateRows_key) simp

lemma recordAdherence_taken_store:
  assumes "ib_status body = Some ''taken''"
    and "findMedicationByPk (medications s) (ib_medicationId body) = Some med"
  shows "medications (snd (recordAdherence u body now s)) = decrement med (medications s)"
  using assms by (simp add: recordAdherence_def Let_def)

text \<open>
  Claim C2, as the code has it: an intake with status taken on a medication that exists
  and has remaining quantity \<open>R\<close> leaves it with \<open>R - 1\<close>; nothing clamps at zero.
\<close>

theorem recordAdherence_taken_decrements:
  "ib_status body = Some ''taken''
   \<and> findMedicationByPk (medications s) (ib_medicationId body) = Some med
   \<and> remainingQuantity med = Some R \<longrightarrow>
     map_option remainingQuantity
       (findMedicationByPk (medications (snd (recordAdherence u body now s))) (ib_medicationId body))
     = Some (Some (R - 1))"
proof
  assume a: "ib_status body = Some ''taken''
   \<and> findMedicationByPk (medications s) (ib_medicationId body) = Some med
   \<and> remainingQuantity med = Some R"
  then obtain k where k: "ib_medicationId body = Some k"
    by (cases "ib_medicationId body") (simp_all add: findMedicationByPk_def)
  from a k have "m_id med = k"
    using find_SomeD [of "\<lambda>m. m_id m = k" "medications s" med]
    by (simp add: findMedicationByPk_def)
  with a k show "map_option remainingQuantity
       (findMedicationByPk (medications (snd (recordAdherence u body now s))) (ib_medicationId body))
     = Some (Some (R - 1))"
    by (simp add: recordAdherence_taken_store findMedicationByPk_decrement)
qed

theorem recordAdherence_taken_decrements_witness:
  "ib_status takenBody = Some ''taken''
   \<and> findMedicationByPk (medications careStore) (ib_medicationId takenBody) = Some pills
   \<and> remainingQuantity pills = Some 5
   \<and> map_option remainingQuantity
       (findMedicationByPk (medications (snd (recordAdherence patient1 takenBody 3000 careStore)))
          (ib_medicationId takenBody))
     = Some (Some 4)"
proof -
  have h: "ib_status takenBody = Some ''taken''"
    "findMedicationByPk (medications careStore) (ib_medicationId takenBody) = Some pills"
    "remainingQuantity pills = Some 5"
    by (simp_all add: takenBody_def careStore_def pills_def findMedicationByPk_def)
  from recordAdherence_taken_decrements [of takenBody careStore pills 5 patient1 3000] h
  show ?thesis by simp
qed

text \<open>
  The claim as worded fails on a medication with nothing left: the remaining quantity
  goes from 0 to -1, not to \<open>max (0 - 1) 0\<close>.
\<close>

theorem recordAdherence_no_clamp_counterexample:
  "map remainingQuantity (medications emptyStock) = [Some 0]
   \<and> map remainingQuantity (medications (snd (recordAdherence patient1 takenBody 3000 emptyStock)))
      = [Some (- 1)]
   \<and> Some (- 1) \<noteq> Some (max (0 - 1) (0::int))"
  by (simp add: emptyStock_def takenBody_def careStore_def pills_def recordAdherence_def
      findMedicationByPk_def decrement_def updateRows_def Let_def)

text \<open>
  Claim C3 at a request without a status: the record is created with status taken, and
  the stock of the medication stays what it was, here 5.
\<close>

theorem recordAdherence_default_status_keeps_stock:
  "map a_status (adherences (snd (recordAdherence patient1 noStatusBody 3000 careStore)))
     = [Some ''missed'', Some ''taken'']
   \<and> a_status (projr (fst (recordAdherence patient1 noStatusBody 3000 careStore))) = Some ''taken''
   \<and> map remainingQuantity (medications careStore) = [Some 5]
   \<and> map remainingQuantity (medications (snd (recordAdherence patient1 noStatusBody 3000 careStore)))
      = [Some 5]"
  by (simp add: noStatusBody_def careStore_def pills_def dose1_def recordAdherence_def
      strOr_def Let_def)

section \<open>Bulk recording\<close>

lemma bulkCreate_appends:
  "snd (bulkCreate rows vs) = rows @ fst (bulkCreate rows vs)
   \<and> map a_userId (fst (bulkCreate rows vs)) = map av_userId vs
   \<and> map a_status (fst (bulkCreate rows vs)) = map av_status vs"
  by (induction vs arbitrary: rows) (simp_all add: Let_def)

text \<open>
  Claim C4 at a batch of one taken dose: the bulk handler stores the record and leaves the
  stock of the medication at 5, where the single-record handler, given the same dose,
  takes it to 4. No call of the bulk handler changes the medication table.
\<close>

theorem bulkRecordAdherence_keeps_stock:
  "map a_status (adherences (snd (bulkRecordAdherence patient1 (Some [takenItem]) 3000 careStore)))
      = [Some ''missed'', Some ''taken'']
   \<and> map remainingQuantity
        (medications (snd (bulkRecordAdherence patient1 (Some [takenItem]) 3000 careStore)))
      = [Some 5]
   \<and> map remainingQuantity (medications (snd (recordAdherence patient1 takenBody 3000 careStore)))
      = [Some 4]
   \<and> medications (snd (bulkRecordAdherence u records now s)) = medications s"
  by (simp add: takenItem_def takenBody_def careStore_def pills_def dose1_def
      bulkRecordAdherence_def recordAdherence_def findMedicationByPk_def decrement_def
      updateRows_def Let_def timeOr_def split: option.split)

text \<open>
  Claim C9: every record that the bulk handler creates belongs to the requester, whatever
  the payload says; the created records are appended to the table, one for each record of
  the payload.
\<close>

theorem bulkRecordAdherence_owner:
  "\<not> isl (fst (bulkRecordAdherence u records now s)) \<longrightarrow>
     list_all (\<lambda>r. a_userId r = u_id u) (projr (fst (bulkRecordAdherence u records now s)))
     \<and> adherences (snd (bulkRecordAdherence u records now s))
        = adherences s @ projr (fst (bulkRecordAdherence u records now s))
     \<and> length (projr (fst (bulkRecordAdherence u records now s))) = length (the records)"
proof
  assume ok: "\<not> isl (fst (bulkRecordAdherence u records now s))"
  then obtain rs where rs: "records = Some rs" "rs \<noteq> []"
    by (cases records) (auto simp: bulkRecordAdherence_def split: if_splits)
  define vs where "vs = map (\<lambda>item. \<lparr>av_userId = u_id u,
                                av_medicationId = bi_medicationId item,
                                av_status = bi_status item,
                                av_takenAt = timeOr (bi_takenAt item) now,
                                av_scheduledTime = bi_scheduledTime item\<rparr>) rs"
  have res: "bulkRecordAdherence u records now s
      = (Inr (fst (bulkCreate (adherences s) vs)), s\<lparr>adherences := snd (bulkCreate (adherences s) vs)\<rparr>)"
    using rs by (simp add: bulkRecordAdherence_def vs_def Let_def)
  have ids: "map a_userId (fst (bulkCreate (adherences s) vs)) = map av_userId vs"
    and app: "snd (bulkCreate (adherences s) vs) = adherences s @ fst (bulkCreate (adherences s) vs)"
    using bulkCreate_appends [of "adherences s" vs] by simp_all
  have "\<forall>x \<in> set (map a_userId (fst (bulkCreate (adherences s) vs))). x = u_id u"
    unfolding ids by (simp add: vs_def)
  then have all: "list_all (\<lambda>r. a_userId r = u_id u) (fst (bulkCreate (adherences s) vs))"
    by (simp add: list_all_iff)
  have len: "length (fst (bulkCreate (adherences s) vs)) = length rs"
    using arg_cong [OF ids, of length] by (simp add: vs_def)
  show "list_all (\<lambda>r. a_userId r = u_id u) (projr (fst (bulkRecordAdherence u records now s)))
     \<and> adherences (snd (bulkRecordAdherence u records now s))
        = adherences s @ projr (fst (bulkRecordAdherence u records now s))
     \<and> length (projr (fst (bulkRecordAdherence u records now s))) = length (the records)"
    unfolding res using all app len rs by simp
qed

theorem bulkRecordAdherence_owner_witness:
  "\<not> isl (fst (bulkRecordAdherence caregiver7 (Some [forgedItem, takenItem]) 3000 careStore))
   \<and> bi_userId forgedItem = Some 1
   \<and> u_id caregiver7 = 7
   \<and> map a_userId (adherences (snd (bulkRecordAdherence caregiver7 (Some [forgedItem, takenItem])
         3000 careStore))) = [1, 7, 7]"
proof -
  have h: "\<not> isl (fst (bulkRecordAdherence caregiver7 (Some [forgedItem, takenItem]) 3000 careStore))"
    by (simp add: bulkRecordAdherence_def Let_def)
  have l: "\<And>xs :: Adherence list. length xs = 2 \<Longrightarrow> list_all (\<lambda>r. a_userId r = 7) xs \<Longrightarrow>
             map a_userId xs = [7, 7]"
  proof -
    fix xs :: "Adherence list"
    assume "length xs = 2" "list_all (\<lambda>r. a_userId r = 7) xs"
    then show "map a_userId xs = [7, 7]"
      by (cases xs; cases "tl xs") auto
  qed
  from bulkRecordAdherence_owner [of caregiver7 "Some [forgedItem, takenItem]" 3000 careStore] h
  show ?thesis
    by (simp add: l forgedItem_def caregiver7_def careStore_def dose1_def)
qed


section \<open>Stock thresholds\<close>

lemma intOr_one: "0 \<le> orZero x \<Longrightarrow> intOr x 1 = max (orZero x) 1"
  by (cases x) (auto simp: intOr_def orZero_def)

lemma intOr_zero: "intOr x 0 = orZero x"
  by (cases x) (auto simp: intOr_def orZero_def)

text \<open>
  Claim C5, as the code has it: the refill-needed handler returns the target's active
  medications whose remaining quantity (null read as 0) is at most seven times the
  times per day, where an unset or zero times per day counts as 1; for a times per day
  that is not negative this is \<open>max timesPerDay 1 * 7\<close>. The refill flag of an upcoming
  dose is a different test, remaining quantity below 10, and the low-stock count uses a
  third, remaining quantity at most 10 and not null.
\<close>

theorem stock_thresholds:
  "(0 \<le> orZero (timesPerDay med) \<longrightarrow>
      needsRefill med
        = (orZero (remainingQuantity med) \<le> max (orZero (timesPerDay med)) 1 * 7))
   \<and> (\<not> accessDenied s u pid \<longrightarrow>
        getRefillNeeded u pid s
          = Inr (filter needsRefill (activeMedications s (targetOf u pid)))
        \<and> getMedicationStats u pid s
          = Inr (length (activeMedications s (targetOf u pid)),
                 length (filter (\<lambda>m. remainingQuantity m \<noteq> None \<and> orZero (remainingQuantity m) \<le> 10)
                     (activeMedications s (targetOf u pid))))
        \<and> list_all (\<lambda>d. list_ex (\<lambda>m. ud_medicationId d = m_id m
                          \<and> ud_isRefillDue d = (orZero (remainingQuantity m) < 10))
                       (activeMedications s (targetOf u pid)))
             (projr (getUpcomingDoses u hours pid now s)))"
proof (intro conjI impI)
  assume "0 \<le> orZero (timesPerDay med)"
  then show "needsRefill med
        = (orZero (remainingQuantity med) \<le> max (orZero (timesPerDay med)) 1 * 7)"
    by (simp add: needsRefill_def Let_def intOr_one intOr_zero)
next
  assume "\<not> accessDenied s u pid"
  then show "getRefillNeeded u pid s
          = Inr (filter needsRefill (activeMedications s (targetOf u pid)))"
    by (simp add: getRefillNeeded_def)
next
  assume ok: "\<not> accessDenied s u pid"
  have "lowStock = (\<lambda>m. remainingQuantity m \<noteq> None \<and> orZero (remainingQuantity m) \<le> 10)"
    by (rule ext) (simp add: lowStock_def orZero_def split: option.split)
  with ok show "getMedicationStats u pid s
          = Inr (length (activeMedications s (targetOf u pid)),
                 length (filter (\<lambda>m. remainingQuantity m \<noteq> None \<and> orZero (remainingQuantity m) \<le> 10)
                     (activeMedications s (targetOf u pid))))"
    by (simp add: getMedicationStats_def Let_def)
next
  assume ok: "\<not> accessDenied s u pid"
  have flag: "\<And>m. ud_isRefillDue (upcomingDose now m) = (orZero (remainingQuantity m) < 10)"
    "\<And>m. ud_medicationId (upcomingDose now m) = m_id m"
    by (simp_all add: upcomingDose_def isRefillDue_def orZero_def Let_def)
  show "list_all (\<lambda>d. list_ex (\<lambda>m. ud_medicationId d = m_id m
                          \<and> ud_isRefillDue d = (orZero (remainingQuantity m) < 10))
                       (activeMedications s (targetOf u pid)))
             (projr (getUpcomingDoses u hours pid now s))"
    using ok flag
    by (auto simp: getUpcomingDoses_def Let_def list_all_iff list_ex_iff)
qed

theorem stock_thresholds_witness:
  "0 \<le> orZero (timesPerDay (pills\<lparr>remainingQuantity := Some 14\<rparr>))
   \<and> needsRefill (pills\<lparr>remainingQuantity := Some 14\<rparr>)
   \<and> 0 \<le> orZero (timesPerDay (pills\<lparr>remainingQuantity := Some 15\<rparr>))
   \<and> \<not> needsRefill (pills\<lparr>remainingQuantity := Some 15\<rparr>)
   \<and> \<not> accessDenied careStore patient1 None
   \<and> getRefillNeeded patient1 None careStore = Inr [pills]
   \<and> getMedicationStats patient1 None careStore = Inr (1, 1)"
proof -
  have h: "\<not> accessDenied careStore patient1 None" by (simp add: accessDenied_def)
  have a: "activeMedications careStore (targetOf patient1 None) = [pills]"
    by (simp add: activeMedications_def targetOf_def careStore_def patient1_def pills_def)
  have p: "needsRefill pills" by (simp add: needsRefill_def intOr_def pills_def)
  from stock_thresholds [of "pills\<lparr>remainingQuantity := Some 14\<rparr>" careStore patient1 None]
    stock_thresholds [of "pills\<lparr>remainingQuantity := Some 15\<rparr>" careStore patient1 None]
    h a p
  show ?thesis by (simp add: pills_def orZero_def)
qed

text \<open>
  The claim as worded fails on a medication taken twice a day with 12 left: the
  refill-needed handler lists it, the low-stock count does not count it, and the
  upcoming dose does not flag it.
\<close>

theorem stock_thresholds_differ_counterexample:
  "getRefillNeeded patient1 None twelveLeft = Inr [pills\<lparr>remainingQuantity := Some 12\<rparr>]
   \<and> getMedicationStats patient1 None twelveLeft = Inr (1, 0)
   \<and> map ud_isRefillDue (projr (getUpcomingDoses patient1 (Some 24) None 0 twelveLeft)) = [False]"
  by code_simp

section \<open>Double-precision arithmetic: what holds\<close>

















section \<open>The schedule generator: what holds\<close>



















text \<open>
  Where the clocks move forward, the dates of the range are not all visited. The
  change is at 02:00 of day 1, the range starts at 02:30 of day 0 and spans two days:
  the end date is 02:30 of day 2 in local time, the loop's date moves to 03:30 when it
  crosses the change, and the third date is past the end. Entries are produced for
  days 0 and 1 only.
\<close>

lemma generateSchedule_clock_change_skips_date:
  "localDay msPerHour (addDate (springZone 93600000) 9000000 2) = 2
   \<and> map (\<lambda>e. fst (snd (se_id e)))
        (projr (the (generateSchedule patient1 (Some 2) (Some 9000000) None 0
                       (springZone 93600000) careStore)))
      = [0, 0, 1, 1]"
  by code_simp

end
